theory Spec2Isabelle
  imports Main "HOL-Library.Multiset"
begin

section \<open>JavaScript values, JSON bodies and texts\<close>

text \<open>
  The leaderboard of the face game: the client-side \<^verbatim>\<open>LeaderboardManager\<close>
  module, the spreadsheet-backed Netlify function (netlify/functions/scores.js), its
  Express twin (builds/003_facegame/server.js), the key-value store module
  (builds/003_facegame/netlify/utils/scoresDb.js) and the Netlify function built on it.

  Values that travel in a request payload: what \<^verbatim>\<open>JSON.parse\<close> can return for a field,
  and \<^verbatim>\<open>undefined\<close> for a field that is not there. Numbers are the integers (scores are
  game-computed integers far below \<open>2^53\<close>, where JavaScript's doubles are exact).
\<close>

datatype js = Undefined | Null | Bool bool | Num int | Str string | Obj "(string \<times> js) list"

datatype exn = SyntaxError | TypeError | FetchError | BackendError

text \<open>\<^verbatim>\<open>!v\<close> is \<open>\<not> truthy v\<close>.\<close>

fun truthy :: "js \<Rightarrow> bool" where
  "truthy Undefined = False"
| "truthy Null = False"
| "truthy (Bool b) = b"
| "truthy (Num n) = (n \<noteq> 0)"
| "truthy (Str s) = (s \<noteq> [])"
| "truthy (Obj kvs) = True"

fun typeof :: "js \<Rightarrow> string" where
  "typeof Undefined = ''undefined''"
| "typeof Null = ''object''"
| "typeof (Bool b) = ''boolean''"
| "typeof (Num n) = ''number''"
| "typeof (Str s) = ''string''"
| "typeof (Obj kvs) = ''object''"

text \<open>
  Reading a property while destructuring \<^verbatim>\<open>const { mode, name, score } = v\<close>: reading
  from \<^verbatim>\<open>null\<close> or \<^verbatim>\<open>undefined\<close> throws a TypeError, a missing property is
  \<^verbatim>\<open>undefined\<close>.
\<close>

fun read_prop :: "js \<Rightarrow> string \<Rightarrow> exn + js" where
  "read_prop Undefined k = Inl TypeError"
| "read_prop Null k = Inl TypeError"
| "read_prop (Obj kvs) k = Inr (case map_of kvs k of None \<Rightarrow> Undefined | Some v \<Rightarrow> v)"
| "read_prop v k = Inr Undefined"

text \<open>
  A score entry \<^verbatim>\<open>{name, score, date}\<close>. \<open>date\<close> is the instant in milliseconds that
  \<^verbatim>\<open>new Date(e.date)\<close> yields; the stored ISO-8601 string is
  \<^verbatim>\<open>new Date(date).toISOString()\<close>. \<open>mode\<close> is the extra field that the spreadsheet
  handler's GET puts into each entry (\<open>None\<close>: the entry has no such field).
\<close>

record score_entry =
  mode :: "string option"
  name :: js
  score :: int
  date :: int

text \<open>
  The JSON bodies that the code under study produces and stores: an array of score
  entries, \<^verbatim>\<open>{ success: true }\<close> and \<^verbatim>\<open>{ error: msg }\<close>.
\<close>

datatype body = Scores "score_entry list" | Success | Error string

text \<open>
  A string, as far as \<^verbatim>\<open>JSON.parse\<close> sees it: \<open>Stringified v\<close> is the text
  \<^verbatim>\<open>JSON.stringify(v)\<close>, which parses back to \<open>v\<close>; \<open>Garbled s\<close> is a string \<open>s\<close> that is
  not a JSON text (the empty string among them), on which \<^verbatim>\<open>JSON.parse\<close> throws a
  SyntaxError.
\<close>

datatype 'a json_text = Stringified 'a | Garbled string

definition JSON_stringify :: "'a \<Rightarrow> 'a json_text" where
  "JSON_stringify v = Stringified v"

fun JSON_parse :: "'a json_text \<Rightarrow> exn + 'a" where
  "JSON_parse (Stringified v) = Inr v"
| "JSON_parse (Garbled s) = Inl SyntaxError"

text \<open>Truthiness of a string: only the empty string is falsy.\<close>

fun nonempty :: "'a json_text \<Rightarrow> bool" where
  "nonempty (Stringified v) = True"
| "nonempty (Garbled s) = (s \<noteq> [])"

section \<open>Sorting\<close>

text \<open>
  \<^verbatim>\<open>Array.prototype.sort(cmp)\<close> is stable: \<open>a\<close> stays before \<open>b\<close> unless
  \<open>cmp a b > 0\<close>. Insertion from the right gives that order.
\<close>

fun insert_by :: "('a \<Rightarrow> 'a \<Rightarrow> int) \<Rightarrow> 'a \<Rightarrow> 'a list \<Rightarrow> 'a list" where
  "insert_by cmp x [] = [x]"
| "insert_by cmp x (y # ys) = (if cmp x y \<le> 0 then x # y # ys else y # insert_by cmp x ys)"

fun array_sort :: "('a \<Rightarrow> 'a \<Rightarrow> int) \<Rightarrow> 'a list \<Rightarrow> 'a list" where
  "array_sort cmp [] = []"
| "array_sort cmp (x # xs) = insert_by cmp x (array_sort cmp xs)"

text \<open>
  The comparator of the client's fallback and of the key-value store:
  \<^verbatim>\<open>(a, b) => { if (b.score !== a.score) return b.score - a.score;
                 return new Date(b.date) - new Date(a.date); }\<close>
\<close>

definition compareScores :: "score_entry \<Rightarrow> score_entry \<Rightarrow> int" where
  "compareScores a b = (if score b \<noteq> score a then score b - score a else date b - date a)"

text \<open>\<^verbatim>\<open>if (scores.length > 10) scores.length = 10\<close>\<close>

definition truncate10 :: "'a list \<Rightarrow> 'a list" where
  "truncate10 scores = (if length scores > 10 then take 10 scores else scores)"

text \<open>Sorted by score descending, ties by date descending.\<close>

definition ranked :: "score_entry list \<Rightarrow> bool" where
  "ranked xs = sorted_wrt (\<lambda>a b. score a > score b \<or> (score a = score b \<and> date a \<ge> date b)) xs"

section \<open>The client: LeaderboardManager\<close>

datatype effect = SetItem string "body json_text" | Fetch string string "js option"

record manager =
  easyModeScores :: body
  hardModeScores :: body
  localStorage :: "string \<rightharpoonup> body json_text"
  io :: "effect list"

text \<open>What \<^verbatim>\<open>await fetch(...)\<close> gives: a rejection, or a response with status and body.\<close>

datatype fetch_result = NetworkError | Response nat "body json_text"

definition ok :: "nat \<Rightarrow> bool" where
  "ok status = (200 \<le> status \<and> status \<le> 299)"

definition fetch :: "manager \<Rightarrow> string \<Rightarrow> string \<Rightarrow> js option \<Rightarrow> manager" where
  "fetch s url method payload = s\<lparr>io := io s @ [Fetch url method payload]\<rparr>"

definition setItem :: "manager \<Rightarrow> string \<Rightarrow> body json_text \<Rightarrow> manager" where
  "setItem s key v = s\<lparr>localStorage := (localStorage s)(key \<mapsto> v), io := io s @ [SetItem key v]\<rparr>"

text \<open>The constructor's fields, before the two \<^verbatim>\<open>loadScores\<close> calls.\<close>

definition constructor :: "(string \<rightharpoonup> body json_text) \<Rightarrow> manager" where
  "constructor storage =
     \<lparr>easyModeScores = Scores [], hardModeScores = Scores [], localStorage = storage, io = []\<rparr>"

definition saveScores :: "manager \<Rightarrow> string \<Rightarrow> body \<Rightarrow> manager" where
  "saveScores s md scores = setItem s (''leaderboard_'' @ md) (JSON_stringify scores)"

definition getScores :: "manager \<Rightarrow> string \<Rightarrow> body" where
  "getScores s md = (if md = ''easy'' then easyModeScores s else hardModeScores s)"

text \<open>
  \<^verbatim>\<open>loadScores(mode)\<close>. The \<^verbatim>\<open>try\<close> block covers the fetch and \<^verbatim>\<open>response.json()\<close>
  and returns when the response is ok; the cache read after it, with its
  \<^verbatim>\<open>JSON.parse\<close>, is outside the \<^verbatim>\<open>try\<close>.
\<close>

definition loadScores :: "manager \<Rightarrow> string \<Rightarrow> fetch_result \<Rightarrow> exn + manager" where
  "loadScores s md net =
     (let s0 = fetch s (''/.netlify/functions/scores?mode='' @ md) ''GET'' None;
          tried =
            (case net of
               NetworkError \<Rightarrow> Inl FetchError
             | Response status b \<Rightarrow>
                 if ok status then
                   (case JSON_parse b of
                      Inl e \<Rightarrow> Inl e
                    | Inr scores \<Rightarrow>
                        let s1 = (if md = ''easy'' then s0\<lparr>easyModeScores := scores\<rparr>
                                  else s0\<lparr>hardModeScores := scores\<rparr>)
                        in Inr (Some (setItem s1 (''leaderboard_'' @ md) (JSON_stringify scores))))
                 else Inr None)
      in case tried of
           Inr (Some s') \<Rightarrow> Inr s'
         | _ \<Rightarrow>
             (let cachedScores = localStorage s0 (''leaderboard_'' @ md);
                  parsed = (case cachedScores of
                              None \<Rightarrow> Inr (Scores [])
                            | Some t \<Rightarrow> if nonempty t then JSON_parse t else Inr (Scores []))
              in case parsed of
                   Inl e \<Rightarrow> Inl e
                 | Inr scores \<Rightarrow>
                     Inr (if md = ''easy'' then s0\<lparr>easyModeScores := scores\<rparr>
                          else s0\<lparr>hardModeScores := scores\<rparr>)))"

text \<open>
  \<^verbatim>\<open>addScore(mode, name, score)\<close>; \<open>now\<close> is the clock read by \<^verbatim>\<open>new Date()\<close>. In the
  fallback \<^verbatim>\<open>scores\<close> is the very array the field refers to, so \<^verbatim>\<open>push\<close>,
  \<^verbatim>\<open>sort\<close> and the assignment to \<^verbatim>\<open>length\<close> change the in-memory list; on a value
  that is not an array \<^verbatim>\<open>scores.push\<close> is not a function and the call throws a TypeError.
\<close>

definition addScore :: "manager \<Rightarrow> string \<Rightarrow> js \<Rightarrow> int \<Rightarrow> int \<Rightarrow> fetch_result \<Rightarrow> exn + manager" where
  "addScore s md nm sc now net =
     (let s0 = fetch s ''/.netlify/functions/scores'' ''POST''
                 (Some (Obj [(''mode'', Str md), (''name'', nm), (''score'', Num sc)]));
          tried =
            (case net of
               NetworkError \<Rightarrow> Inl FetchError
             | Response status b \<Rightarrow>
                 if ok status then
                   (case JSON_parse b of
                      Inl e \<Rightarrow> Inl e
                    | Inr updatedScores \<Rightarrow>
                        let s1 = (if md = ''easy'' then s0\<lparr>easyModeScores := updatedScores\<rparr>
                                  else s0\<lparr>hardModeScores := updatedScores\<rparr>)
                        in Inr (Some (saveScores s1 md updatedScores)))
                 else Inr None)
      in case tried of
           Inr (Some s') \<Rightarrow> Inr s'
         | _ \<Rightarrow>
             (case (if md = ''easy'' then easyModeScores s0 else hardModeScores s0) of
                Scores xs \<Rightarrow>
                  (let pushed = xs @ [\<lparr>mode = None, name = nm, score = sc, date = now\<rparr>];
                       scores = truncate10 (array_sort compareScores pushed);
                       s1 = (if md = ''easy'' then s0\<lparr>easyModeScores := Scores scores\<rparr>
                             else s0\<lparr>hardModeScores := Scores scores\<rparr>)
                   in Inr (saveScores s1 md (Scores scores)))
              | _ \<Rightarrow> Inl TypeError))"

text \<open>\<^verbatim>\<open>clearScores(mode)\<close>: the \<^verbatim>\<open>catch\<close> swallows a rejected fetch.\<close>

definition clearScores :: "manager \<Rightarrow> string \<Rightarrow> fetch_result \<Rightarrow> exn + manager" where
  "clearScores s md net =
     (let s1 = (if md = ''easy'' then s\<lparr>easyModeScores := Scores []\<rparr>
                else s\<lparr>hardModeScores := Scores []\<rparr>);
          s2 = saveScores s1 md (Scores []);
          s3 = fetch s2 ''/.netlify/functions/scores/clear'' ''POST'' (Some (Obj [(''mode'', Str md)]))
      in case (case net of NetworkError \<Rightarrow> Inl FetchError | Response status b \<Rightarrow> Inr s3) of
           Inl error \<Rightarrow> Inr s3
         | Inr s' \<Rightarrow> Inr s')"

text \<open>
  \<^verbatim>\<open>isHighScore(mode, score)\<close>. On \<^verbatim>\<open>{success: true}\<close> or \<^verbatim>\<open>{error: ...}\<close> the
  \<^verbatim>\<open>length\<close> is \<^verbatim>\<open>undefined\<close>: both comparisons with it are false, \<^verbatim>\<open>lowestScore\<close> is 0.
\<close>

definition isHighScore :: "manager \<Rightarrow> string \<Rightarrow> int \<Rightarrow> bool" where
  "isHighScore s md sc =
     (case getScores s md of
        Scores xs \<Rightarrow>
          (let lowestScore = (if length xs > 0 then score (xs ! (length xs - 1)) else 0)
           in length xs < 10 \<or> sc > lowestScore)
      | _ \<Rightarrow> sc > 0)"

text \<open>The remote attempt of \<^verbatim>\<open>addScore\<close> or \<^verbatim>\<open>loadScores\<close> did not deliver a body.\<close>

definition unavailable :: "fetch_result \<Rightarrow> bool" where
  "unavailable net =
     (case net of NetworkError \<Rightarrow> True | Response status b \<Rightarrow> \<not> ok status \<or> isl (JSON_parse b))"

text \<open>
  A run of \<^verbatim>\<open>addScore\<close> calls, one awaited after the other: the outcome of each call,
  in order. A call that throws ends the run.
\<close>

record call =
  call_mode :: string
  call_name :: js
  call_score :: int
  call_now :: int
  call_net :: fetch_result

fun addScores :: "manager \<Rightarrow> call list \<Rightarrow> (exn + manager) list" where
  "addScores s [] = []"
| "addScores s (c # cs) =
     (case addScore s (call_mode c) (call_name c) (call_score c) (call_now c) (call_net c) of
        Inl e \<Rightarrow> [Inl e]
      | Inr s' \<Rightarrow> Inr s' # addScores s' cs)"

section \<open>The spreadsheet-backed service\<close>

text \<open>
  A row \<^verbatim>\<open>[mode, name, score, date]\<close> of \<^verbatim>\<open>Sheet1!A:D\<close>. The score cell holds a number
  (the POST branch appends nothing else), so \<^verbatim>\<open>Number(score)\<close> reads it back; the date
  cell is the instant of \<^verbatim>\<open>new Date().toISOString()\<close>. A call of the Sheets API throws
  when the sheet is not available.
\<close>

record sheet_row =
  row_mode :: js
  row_name :: js
  row_score :: int
  row_date :: int

record sheets =
  rows :: "sheet_row list"
  available :: bool

definition values_append :: "sheets \<Rightarrow> sheet_row \<Rightarrow> exn + sheets" where
  "values_append sh row = (if available sh then Inr (sh\<lparr>rows := rows sh @ [row]\<rparr>) else Inl BackendError)"

definition values_get :: "sheets \<Rightarrow> exn + sheet_row list" where
  "values_get sh = (if available sh then Inr (rows sh) else Inl BackendError)"

record event =
  httpMethod :: string
  queryStringParameters :: "(string \<rightharpoonup> string) option"
  event_body :: "js json_text"

record response =
  statusCode :: nat
  body :: "body json_text"

text \<open>
  The block shared by both GET routes:
  \<^verbatim>\<open>rows.filter(row => row[0] === mode)
       .map(([mode, name, score, date]) => ({ mode, name, score: Number(score), date }))
       .sort((a, b) => b.score - a.score).slice(0, 10)\<close>
\<close>

definition top_scores :: "string \<Rightarrow> sheet_row list \<Rightarrow> score_entry list" where
  "top_scores md rs =
     take 10 (array_sort (\<lambda>a b. score b - score a)
       (map (\<lambda>row. \<lparr>mode = (case row_mode row of Str m \<Rightarrow> Some m | _ \<Rightarrow> None),
                     name = row_name row, score = row_score row, date = row_date row\<rparr>)
          (filter (\<lambda>row. row_mode row = Str md) rs)))"

text \<open>
  The block shared by both POST routes, after \<^verbatim>\<open>const { mode, name, score } = payload\<close>:
  the test \<^verbatim>\<open>!mode || typeof score !== 'number'\<close>, then the append. \<open>Inr None\<close> is the
  early return of the 400 reply. A value of type number is a \<open>Num\<close>; the last case is
  never reached.
\<close>

definition save_row :: "js \<Rightarrow> int \<Rightarrow> sheets \<Rightarrow> exn + sheets option" where
  "save_row payload now sh =
     (case (read_prop payload ''mode'', read_prop payload ''name'', read_prop payload ''score'') of
        (Inr md, Inr nm, Inr sc) \<Rightarrow>
          if \<not> truthy md \<or> typeof sc \<noteq> ''number'' then Inr None
          else (case sc of
                  Num n \<Rightarrow>
                    (case values_append sh \<lparr>row_mode = md, row_name = nm, row_score = n, row_date = now\<rparr> of
                       Inl e \<Rightarrow> Inl e
                     | Inr sh' \<Rightarrow> Inr (Some sh'))
                | _ \<Rightarrow> Inr None)
      | _ \<Rightarrow> Inl TypeError)"

text \<open>\<^verbatim>\<open>exports.handler\<close> of netlify/functions/scores.js; \<open>now\<close> is the server's clock.\<close>

definition handler :: "event \<Rightarrow> int \<Rightarrow> sheets \<Rightarrow> response \<times> sheets" where
  "handler ev now sh =
     (if httpMethod ev = ''POST'' then
        (case (case JSON_parse (event_body ev) of
                 Inl e \<Rightarrow> Inl e
               | Inr payload \<Rightarrow> save_row payload now sh) of
           Inl err \<Rightarrow>
             (\<lparr>statusCode = 500, body = JSON_stringify (Error ''Failed to save score'')\<rparr>, sh)
         | Inr None \<Rightarrow>
             (\<lparr>statusCode = 400, body = JSON_stringify (Error ''Invalid input'')\<rparr>, sh)
         | Inr (Some sh') \<Rightarrow>
             (\<lparr>statusCode = 200, body = JSON_stringify Success\<rparr>, sh'))
      else if httpMethod ev = ''GET'' then
        (let md = (case queryStringParameters ev of
                     None \<Rightarrow> ''easy''
                   | Some q \<Rightarrow> (case q ''mode'' of
                                  None \<Rightarrow> ''easy''
                                | Some m \<Rightarrow> if m \<noteq> [] then m else ''easy''))
         in case values_get sh of
              Inl err \<Rightarrow>
                (\<lparr>statusCode = 500, body = JSON_stringify (Error ''Failed to load scores'')\<rparr>, sh)
            | Inr rs \<Rightarrow>
                (\<lparr>statusCode = 200, body = JSON_stringify (Scores (top_scores md rs))\<rparr>, sh))
      else (\<lparr>statusCode = 405, body = JSON_stringify (Error ''Method not allowed'')\<rparr>, sh))"

text \<open>
  The Express routes of builds/003_facegame/server.js: \<^verbatim>\<open>app.post('/api/scores')\<close> on
  the parsed \<^verbatim>\<open>req.body\<close> and \<^verbatim>\<open>app.get('/api/scores')\<close> on \<^verbatim>\<open>req.query\<close>.
\<close>

definition app_post :: "js \<Rightarrow> int \<Rightarrow> sheets \<Rightarrow> response \<times> sheets" where
  "app_post req_body now sh =
     (case save_row req_body now sh of
        Inl err \<Rightarrow> (\<lparr>statusCode = 500, body = JSON_stringify (Error ''Failed to save score'')\<rparr>, sh)
      | Inr None \<Rightarrow> (\<lparr>statusCode = 400, body = JSON_stringify (Error ''Invalid input'')\<rparr>, sh)
      | Inr (Some sh') \<Rightarrow> (\<lparr>statusCode = 200, body = JSON_stringify Success\<rparr>, sh'))"

definition app_get :: "(string \<rightharpoonup> string) \<Rightarrow> sheets \<Rightarrow> response \<times> sheets" where
  "app_get req_query sh =
     (let md = (case req_query ''mode'' of None \<Rightarrow> ''easy'' | Some m \<Rightarrow> if m \<noteq> [] then m else ''easy'')
      in case values_get sh of
           Inl err \<Rightarrow> (\<lparr>statusCode = 500, body = JSON_stringify (Error ''Failed to load scores'')\<rparr>, sh)
         | Inr rs \<Rightarrow> (\<lparr>statusCode = 200, body = JSON_stringify (Scores (top_scores md rs))\<rparr>, sh))"

text \<open>The request that the client's \<^verbatim>\<open>addScore\<close> sends, and the same for a GET.\<close>

definition post_event :: "string \<Rightarrow> js \<Rightarrow> int \<Rightarrow> event" where
  "post_event md nm sc =
     \<lparr>httpMethod = ''POST'', queryStringParameters = None,
      event_body = JSON_stringify (Obj [(''mode'', Str md), (''name'', nm), (''score'', Num sc)])\<rparr>"

definition get_event :: "(string \<rightharpoonup> string) option \<Rightarrow> event" where
  "get_event q = \<lparr>httpMethod = ''GET'', queryStringParameters = q, event_body = Garbled []\<rparr>"

section \<open>The key-value store module and its handler\<close>

text \<open>
  The blob store of \<^verbatim>\<open>@netlify/blobs\<close> as scoresDb.js uses it. \<^verbatim>\<open>getKVStore('leaderboard')\<close>
  hands out the store or throws; \<^verbatim>\<open>store.get\<close> gives \<^verbatim>\<open>null\<close> for a key never set, and
  \<^verbatim>\<open>get\<close> and \<^verbatim>\<open>set\<close> throw when the store cannot be reached.
\<close>

record kv_store =
  blobs :: "string \<rightharpoonup> body json_text"
  obtainable :: bool
  reachable :: bool

definition getKVStore :: "kv_store \<Rightarrow> exn + kv_store" where
  "getKVStore st = (if obtainable st then Inr st else Inl BackendError)"

definition store_get :: "kv_store \<Rightarrow> string \<Rightarrow> exn + body json_text option" where
  "store_get st key = (if reachable st then Inr (blobs st key) else Inl BackendError)"

definition store_set :: "kv_store \<Rightarrow> string \<Rightarrow> body json_text \<Rightarrow> exn + kv_store" where
  "store_set st key v = (if reachable st then Inr (st\<lparr>blobs := (blobs st)(key \<mapsto> v)\<rparr>) else Inl BackendError)"

text \<open>
  \<^verbatim>\<open>getScores(mode)\<close> of scoresDb.js. The call of \<^verbatim>\<open>getKVStore\<close> stands before the
  \<^verbatim>\<open>try\<close>, so what it throws leaves the function; the \<^verbatim>\<open>catch\<close> around the read and
  the parse logs and returns \<^verbatim>\<open>[]\<close>.
\<close>

definition scoresDb_getScores :: "kv_store \<Rightarrow> string \<Rightarrow> exn + body" where
  "scoresDb_getScores st md =
     (case getKVStore st of
        Inl e \<Rightarrow> Inl e
      | Inr store \<Rightarrow>
          (case (case store_get store (''scores_'' @ md) of
                   Inl e \<Rightarrow> Inl e
                 | Inr scores \<Rightarrow>
                     (case scores of
                        None \<Rightarrow> Inr (Scores [])
                      | Some t \<Rightarrow> if nonempty t then JSON_parse t else Inr (Scores []))) of
             Inl error \<Rightarrow> Inr (Scores [])
           | Inr v \<Rightarrow> Inr v))"

text \<open>
  \<^verbatim>\<open>saveScores(mode, name, newScore)\<close> of scoresDb.js: \<^verbatim>\<open>getKVStore\<close> before the
  \<^verbatim>\<open>try\<close> again; the \<^verbatim>\<open>catch\<close> logs and throws the error again. It returns the new
  list, with the store as it has become.
\<close>

definition scoresDb_saveScores :: "kv_store \<Rightarrow> string \<Rightarrow> js \<Rightarrow> int \<Rightarrow> int \<Rightarrow> exn + body \<times> kv_store" where
  "scoresDb_saveScores st md nm newScore now =
     (case getKVStore st of
        Inl e \<Rightarrow> Inl e
      | Inr store \<Rightarrow>
          (case (case scoresDb_getScores st md of
                   Inl e \<Rightarrow> Inl e
                 | Inr (Scores xs) \<Rightarrow>
                     (let pushed = xs @ [\<lparr>mode = None, name = nm, score = newScore, date = now\<rparr>];
                          scores = truncate10 (array_sort compareScores pushed)
                      in case store_set store (''scores_'' @ md) (JSON_stringify (Scores scores)) of
                           Inl e \<Rightarrow> Inl e
                         | Inr st' \<Rightarrow> Inr (Scores scores, st'))
                 | Inr _ \<Rightarrow> Inl TypeError) of
             Inl error \<Rightarrow> Inl error
           | Inr saved \<Rightarrow> Inr saved))"

text \<open>
  \<^verbatim>\<open>exports.handler\<close> of the key-value function (netlify/functions/scores.js of
  builds/003_facegame, on \<^verbatim>\<open>require('../utils/scoresDb')\<close>). The whole body is in one
  \<^verbatim>\<open>try\<close>, whose \<^verbatim>\<open>catch\<close> answers 500; an error carries the store as it is when thrown.
  The POST branch tests \<^verbatim>\<open>!mode || !name || score === undefined\<close>. A payload that passes
  the test with a mode that is not a string or a score that is not a number would store an
  entry that \<open>score_entry\<close> cannot hold: there the result is \<open>None\<close>, and nothing is said
  about it.
\<close>

definition kv_handler :: "event \<Rightarrow> int \<Rightarrow> kv_store \<Rightarrow> (response \<times> kv_store) option" where
  "kv_handler ev now st =
     (case (if httpMethod ev = ''GET'' then
              (let md = (case queryStringParameters ev of
                           None \<Rightarrow> ''easy''
                         | Some q \<Rightarrow> (case q ''mode'' of
                                        None \<Rightarrow> ''easy''
                                      | Some m \<Rightarrow> if m \<noteq> [] then m else ''easy''))
               in case scoresDb_getScores st md of
                    Inl e \<Rightarrow> Inl (e, st)
                  | Inr scores \<Rightarrow>
                      Inr (Some (\<lparr>statusCode = 200, body = JSON_stringify scores\<rparr>, st)))
            else if httpMethod ev = ''POST'' then
              (case JSON_parse (event_body ev) of
                 Inl e \<Rightarrow> Inl (e, st)
               | Inr payload \<Rightarrow>
                   (case (read_prop payload ''mode'', read_prop payload ''name'',
                          read_prop payload ''score'') of
                      (Inr md, Inr nm, Inr sc) \<Rightarrow>
                        if \<not> truthy md \<or> \<not> truthy nm \<or> sc = Undefined then
                          Inr (Some (\<lparr>statusCode = 400,
                                      body = JSON_stringify (Error ''Missing required fields'')\<rparr>, st))
                        else
                          (case (md, sc) of
                             (Str m, Num n) \<Rightarrow>
                               (case scoresDb_saveScores st m nm n now of
                                  Inl e \<Rightarrow> Inl (e, st)
                                | Inr (saved, st') \<Rightarrow>
                                    (case scoresDb_getScores st' m of
                                       Inl e \<Rightarrow> Inl (e, st')
                                     | Inr updatedScores \<Rightarrow>
                                         Inr (Some (\<lparr>statusCode = 200,
                                                     body = JSON_stringify updatedScores\<rparr>, st'))))
                           | _ \<Rightarrow> Inr None)
                    | _ \<Rightarrow> Inl (TypeError, st)))
            else Inr (Some (\<lparr>statusCode = 405,
                             body = JSON_stringify (Error ''Method not allowed'')\<rparr>, st))) of
        Inl (error, st1) \<Rightarrow>
          Some (\<lparr>statusCode = 500, body = JSON_stringify (Error ''Server error'')\<rparr>, st1)
      | Inr r \<Rightarrow> r)"

section \<open>Both services on one sequence of submissions\<close>






section \<open>Concrete states\<close>

text \<open>Two fallback calls with the same score, the second later than the first.\<close>

definition demo_calls :: "call list" where
  "demo_calls =
     [\<lparr>call_mode = ''easy'', call_name = Str ''A'', call_score = 5, call_now = 1, call_net = NetworkError\<rparr>,
      \<lparr>call_mode = ''easy'', call_name = Str ''B'', call_score = 5, call_now = 2,
       call_net = Response 500 (Stringified (Error ''Failed to save score''))\<rparr>]"

text \<open>
  A full easy board with the scores 50, 45, ..., 5 and a hard board of one entry, and the
  same with the boards exchanged.
\<close>

definition ten_scores :: "score_entry list" where
  "ten_scores = map (\<lambda>n. \<lparr>mode = None, name = Str ''P'', score = 50 - 5 * int n, date = int n\<rparr>) [0..<10]"

definition full_board :: manager where
  "full_board = \<lparr>easyModeScores = Scores ten_scores,
                  hardModeScores = Scores [\<lparr>mode = None, name = Str ''H'', score = 3, date = 9\<rparr>],
                  localStorage = Map.empty, io = []\<rparr>"

definition hard_full_board :: manager where
  "hard_full_board = \<lparr>easyModeScores = Scores [\<lparr>mode = None, name = Str ''E'', score = 3, date = 9\<rparr>],
                       hardModeScores = Scores ten_scores,
                       localStorage = Map.empty, io = []\<rparr>"

text \<open>
  A POST without a name, an empty sheet and a sheet with one easy row; a cache and a
  blob store that hold a string that is not JSON, and an empty blob store; two
  submissions with equal scores and two with different scores.
\<close>

definition nameless_post :: event where
  "nameless_post =
     \<lparr>httpMethod = ''POST'', queryStringParameters = None,
      event_body = JSON_stringify (Obj [(''mode'', Str ''easy''), (''score'', Num 5)])\<rparr>"

definition empty_sheet :: sheets where
  "empty_sheet = \<lparr>rows = [], available = True\<rparr>"

definition one_easy_row :: sheets where
  "one_easy_row =
     \<lparr>rows = [\<lparr>row_mode = Str ''easy'', row_name = Str ''Ann'', row_score = 7, row_date = 1000\<rparr>],
      available = True\<rparr>"

definition garbled_cache :: "string \<rightharpoonup> body json_text" where
  "garbled_cache = [''leaderboard_easy'' \<mapsto> Garbled ''{oops'']"

definition garbled_store :: kv_store where
  "garbled_store =
     \<lparr>blobs = [''scores_easy'' \<mapsto> Garbled ''{oops''], obtainable = True, reachable = True\<rparr>"

definition empty_store :: kv_store where
  "empty_store = \<lparr>blobs = Map.empty, obtainable = True, reachable = True\<rparr>"



section \<open>Sorting and truncation\<close>

lemma mset_insert_by: "mset (insert_by cmp x ys) = add_mset x (mset ys)"
  by (induction ys) auto

lemma mset_array_sort: "mset (array_sort cmp xs) = mset xs"
  by (induction xs) (auto simp: mset_insert_by)

lemma set_insert_by: "set (insert_by cmp x ys) = insert x (set ys)"
  by (induction ys) auto

lemma sorted_insert_by:
  assumes total: "\<And>a b. cmp a b \<le> 0 \<or> cmp b a \<le> 0"
    and trans: "\<And>a b c. cmp a b \<le> 0 \<Longrightarrow> cmp b c \<le> 0 \<Longrightarrow> cmp a c \<le> 0"
    and "sorted_wrt (\<lambda>a b. cmp a b \<le> 0) ys"
  shows "sorted_wrt (\<lambda>a b. cmp a b \<le> 0) (insert_by cmp x ys)"
  using assms(3)
proof (induction ys)
  case Nil
  then show ?case by simp
next
  case (Cons y ys)
  show ?case
  proof (cases "cmp x y \<le> 0")
    case True
    with Cons.prems trans show ?thesis by auto
  next
    case False
    with total have "cmp y x \<le> 0" by blast
    with False Cons show ?thesis by (auto simp: set_insert_by)
  qed
qed

lemma sorted_array_sort:
  assumes "\<And>a b. cmp a b \<le> 0 \<or> cmp b a \<le> 0"
    and "\<And>a b c. cmp a b \<le> 0 \<Longrightarrow> cmp b c \<le> 0 \<Longrightarrow> cmp a c \<le> 0"
  shows "sorted_wrt (\<lambda>a b. cmp a b \<le> 0) (array_sort cmp xs)"
proof (induction xs)
  case Nil
  then show ?case by simp
next
  case (Cons x xs)
  then show ?case using sorted_insert_by [of cmp "array_sort cmp xs" x] assms by auto
qed

lemma compareScores_le:
  "compareScores a b \<le> 0 \<longleftrightarrow> score a > score b \<or> (score a = score b \<and> date a \<ge> date b)"
  by (auto simp: compareScores_def)

lemma ranked_array_sort: "ranked (array_sort compareScores xs)"
proof -
  have "sorted_wrt (\<lambda>a b. compareScores a b \<le> 0) (array_sort compareScores xs)"
    by (rule sorted_array_sort) (auto simp: compareScores_le)
  then show ?thesis by (simp add: ranked_def compareScores_le)
qed

lemma ranked_take: "ranked xs \<Longrightarrow> ranked (take n xs)"
  unfolding ranked_def by (rule sorted_wrt_take)

lemma truncate10_take: "truncate10 xs = take 10 xs"
  by (simp add: truncate10_def)

lemma ranked_truncate10: "ranked xs \<Longrightarrow> ranked (truncate10 xs)"
  by (simp add: truncate10_take ranked_take)

lemma length_truncate10: "length (truncate10 xs) \<le> 10"
  by (simp add: truncate10_take)

lemma set_array_sort: "set (array_sort cmp xs) = set xs"
  by (metis mset_array_sort set_mset_mset)









lemma addScore_fallback:
  assumes "unavailable net" and "getScores s md = Scores xs"
  shows "\<exists>s'. addScore s md nm sc now net = Inr s'
     \<and> easyModeScores s' = (if md = ''easy''
          then Scores (truncate10 (array_sort compareScores (xs @ [\<lparr>mode = None, name = nm, score = sc, date = now\<rparr>])))
          else easyModeScores s)
     \<and> hardModeScores s' = (if md = ''easy'' then hardModeScores s
          else Scores (truncate10 (array_sort compareScores (xs @ [\<lparr>mode = None, name = nm, score = sc, date = now\<rparr>]))))
     \<and> localStorage s' = (localStorage s)(''leaderboard_'' @ md \<mapsto>
          JSON_stringify (Scores (truncate10 (array_sort compareScores (xs @ [\<lparr>mode = None, name = nm, score = sc, date = now\<rparr>])))))"
proof (cases net)
  case NetworkError
  with assms(2) show ?thesis
    by (cases "md = ''easy''")
       (simp_all add: addScore_def getScores_def saveScores_def setItem_def fetch_def Let_def)
next
  case (Response status b)
  with assms show ?thesis
    by (cases b; cases "md = ''easy''")
       (simp_all add: addScore_def unavailable_def getScores_def saveScores_def setItem_def
          fetch_def Let_def)
qed

section \<open>Properties of the client\<close>

text \<open>
  C2. Whatever array the in-memory list of a mode holds, a sequence of \<^verbatim>\<open>addScore\<close> calls
  for that mode that all take the fallback path (the fetch is rejected, the status is not
  ok, or the body does not parse) runs to its end without a throw, and after each call the
  list of the mode has at most 10 entries and is sorted by score descending, ties by date
  descending.
\<close>

theorem addScore_fallback_ranked:
  assumes "getScores s md = Scores xs"
    and "\<forall>c \<in> set calls. unavailable (call_net c) \<and> (call_mode c = ''easy'') = (md = ''easy'')"
  shows "length (addScores s calls) = length calls \<and>
         (\<forall>r \<in> set (addScores s calls).
            \<exists>s' ys. r = Inr s' \<and> getScores s' md = Scores ys \<and> length ys \<le> 10 \<and> ranked ys)"
  using assms
proof (induction calls arbitrary: s xs)
  case Nil
  then show ?case by simp
next
  case (Cons c cs)
  let ?ys = "truncate10 (array_sort compareScores
     (xs @ [\<lparr>mode = None, name = call_name c, score = call_score c, date = call_now c\<rparr>]))"
  from Cons.prems have un: "unavailable (call_net c)"
    and same: "(call_mode c = ''easy'') = (md = ''easy'')" by auto
  from Cons.prems(1) same have "getScores s (call_mode c) = Scores xs"
    by (auto simp: getScores_def)
  from addScore_fallback [OF un this, of "call_name c" "call_score c" "call_now c"]
  obtain s' where step: "addScore s (call_mode c) (call_name c) (call_score c) (call_now c) (call_net c) = Inr s'"
    and e: "easyModeScores s' = (if call_mode c = ''easy'' then Scores ?ys else easyModeScores s)"
    and h: "hardModeScores s' = (if call_mode c = ''easy'' then hardModeScores s else Scores ?ys)"
    by blast
  from e h same have now: "getScores s' md = Scores ?ys"
    by (auto simp: getScores_def)
  have good: "length ?ys \<le> 10 \<and> ranked ?ys"
    by (simp add: length_truncate10 ranked_truncate10 ranked_array_sort)
  from Cons.prems(2) have rest: "\<forall>c \<in> set cs. unavailable (call_net c) \<and> (call_mode c = ''easy'') = (md = ''easy'')"
    by simp
  from Cons.IH [OF now rest] step now good show ?case by auto
qed

theorem addScore_fallback_ranked_witness:
  "getScores (constructor Map.empty) ''easy'' = Scores [] \<and>
   list_all (\<lambda>c. unavailable (call_net c) \<and> call_mode c = ''easy'') demo_calls \<and>
   map (map_sum id (\<lambda>s. getScores s ''easy'')) (addScores (constructor Map.empty) demo_calls) =
     [Inr (Scores [\<lparr>mode = None, name = Str ''A'', score = 5, date = 1\<rparr>]),
      Inr (Scores [\<lparr>mode = None, name = Str ''B'', score = 5, date = 2\<rparr>,
                   \<lparr>mode = None, name = Str ''A'', score = 5, date = 1\<rparr>])] \<and>
   length (addScores (constructor Map.empty) demo_calls) = length demo_calls \<and>
   list_all (\<lambda>r. case r of Inl e \<Rightarrow> False
       | Inr s' \<Rightarrow> (case getScores s' ''easy'' of Scores ys \<Rightarrow> length ys \<le> 10 \<and> ranked ys | _ \<Rightarrow> False))
     (addScores (constructor Map.empty) demo_calls)"
proof -
  have h1: "getScores (constructor Map.empty) ''easy'' = Scores []"
    by (simp add: getScores_def constructor_def)
  have h2: "\<forall>c \<in> set demo_calls. unavailable (call_net c) \<and> (call_mode c = ''easy'') = (''easy'' = ''easy'')"
    by (simp add: demo_calls_def unavailable_def ok_def)
  have ev: "map (map_sum id (\<lambda>s. getScores s ''easy'')) (addScores (constructor Map.empty) demo_calls) =
     [Inr (Scores [\<lparr>mode = None, name = Str ''A'', score = 5, date = 1\<rparr>]),
      Inr (Scores [\<lparr>mode = None, name = Str ''B'', score = 5, date = 2\<rparr>,
                   \<lparr>mode = None, name = Str ''A'', score = 5, date = 1\<rparr>])]"
    by (simp add: demo_calls_def addScore_def constructor_def fetch_def ok_def saveScores_def
        setItem_def getScores_def truncate10_def compareScores_def Let_def JSON_stringify_def)
  from addScore_fallback_ranked [OF h1 h2] h1 h2 ev show ?thesis
    by (auto simp: list_all_iff split: sum.splits body.splits)
qed

text \<open>
  C5. \<^verbatim>\<open>isHighScore(mode, s)\<close> is true for every \<open>s\<close>, negative ones too, when the list of
  the mode has fewer than 10 entries; with exactly 10 entries it is true if and only if
  \<open>s\<close> is greater than the score of the last entry. It is a function of the state to a
  truth value: it returns no state and leaves no request or cache write.
\<close>

theorem isHighScore_spec:
  assumes "getScores s md = Scores xs"
  shows "(length xs < 10 \<longrightarrow> isHighScore s md sc) \<and>
         (length xs = 10 \<longrightarrow> (isHighScore s md sc \<longleftrightarrow> sc > score (last xs)))"
proof (cases "xs = []")
  case True
  with assms show ?thesis by (simp add: isHighScore_def)
next
  case False
  then have "xs ! (length xs - 1) = last xs" by (simp add: last_conv_nth)
  with assms False show ?thesis by (auto simp: isHighScore_def Let_def)
qed

lemma ten_scores_eval: "length ten_scores = 10 \<and> score (last ten_scores) = 5"
  by (simp add: ten_scores_def upt_conv_Cons last_map)

theorem isHighScore_spec_witness:
  "getScores full_board ''easy'' = Scores ten_scores \<and> length ten_scores = 10 \<and>
   score (last ten_scores) = 5 \<and>
   isHighScore full_board ''easy'' 6 \<and> \<not> isHighScore full_board ''easy'' 5 \<and>
   isHighScore full_board ''hard'' (- 4)"
proof -
  have e: "getScores full_board ''easy'' = Scores ten_scores"
    by (simp add: getScores_def full_board_def)
  have h: "getScores full_board ''hard'' = Scores [\<lparr>mode = None, name = Str ''H'', score = 3, date = 9\<rparr>]"
    by (simp add: getScores_def full_board_def)
  from isHighScore_spec [OF e, of 6] isHighScore_spec [OF e, of 5] isHighScore_spec [OF h, of "- 4"]
    e ten_scores_eval
  show ?thesis by simp
qed

text \<open>
  C7. \<^verbatim>\<open>clearScores(m)\<close> never throws, whatever the remote clear request does. Afterwards
  the list of \<open>m\<close> is empty, the other list is as before, the cache entry of \<open>m\<close> holds the
  empty list, and the cache was written before the request was sent.
\<close>

theorem clearScores_spec:
  "\<exists>s'. clearScores s md net = Inr s' \<and>
     getScores s' md = Scores [] \<and>
     easyModeScores s' = (if md = ''easy'' then Scores [] else easyModeScores s) \<and>
     hardModeScores s' = (if md = ''easy'' then hardModeScores s else Scores []) \<and>
     localStorage s' = (localStorage s)(''leaderboard_'' @ md \<mapsto> JSON_stringify (Scores [])) \<and>
     io s' = io s @ [SetItem (''leaderboard_'' @ md) (JSON_stringify (Scores [])),
                     Fetch ''/.netlify/functions/scores/clear'' ''POST'' (Some (Obj [(''mode'', Str md)]))]"
  by (cases net)
     (simp_all add: clearScores_def saveScores_def setItem_def fetch_def getScores_def Let_def)

text \<open>
  C9. A mode that is not the string \<^verbatim>\<open>easy\<close> selects the hard list in every operation:
  \<^verbatim>\<open>getScores\<close> returns it, \<^verbatim>\<open>isHighScore\<close> judges the score against it (fewer than 10
  entries, or a score above that of its last entry) and against nothing else,
  \<^verbatim>\<open>clearScores\<close> empties it, and the fallback of \<^verbatim>\<open>addScore\<close> inserts into it; the
  easy list is never touched.
\<close>

theorem unknown_mode_is_hard:
  assumes "md \<noteq> ''easy''"
  shows "getScores s md = hardModeScores s \<and>
         isHighScore s md sc =
           (case hardModeScores s of
              Scores xs \<Rightarrow> length xs < 10 \<or> sc > (if xs = [] then 0 else score (last xs))
            | _ \<Rightarrow> sc > 0) \<and>
         (\<exists>s'. clearScores s md net = Inr s' \<and> hardModeScores s' = Scores [] \<and>
               easyModeScores s' = easyModeScores s) \<and>
         (unavailable net \<longrightarrow>
            (case hardModeScores s of
               Scores xs \<Rightarrow>
                 \<exists>s'. addScore s md nm sc now net = Inr s' \<and>
                      easyModeScores s' = easyModeScores s \<and>
                      hardModeScores s' = Scores (truncate10 (array_sort compareScores
                        (xs @ [\<lparr>mode = None, name = nm, score = sc, date = now\<rparr>])))
             | _ \<Rightarrow> addScore s md nm sc now net = Inl TypeError))"
proof -
  have g: "getScores s md = hardModeScores s"
    using assms by (simp add: getScores_def)
  have i: "isHighScore s md sc =
           (case hardModeScores s of
              Scores xs \<Rightarrow> length xs < 10 \<or> sc > (if xs = [] then 0 else score (last xs))
            | _ \<Rightarrow> sc > 0)"
  proof (cases "hardModeScores s")
    case (Scores xs)
    show ?thesis
    proof (cases "xs = []")
      case True
      with Scores g show ?thesis by (simp add: isHighScore_def)
    next
      case False
      then have "xs ! (length xs - 1) = last xs" by (simp add: last_conv_nth)
      with False Scores g show ?thesis by (simp add: isHighScore_def Let_def)
    qed
  next
    case Success
    with g show ?thesis by (simp add: isHighScore_def)
  next
    case (Error m)
    with g show ?thesis by (simp add: isHighScore_def)
  qed
  have c: "\<exists>s'. clearScores s md net = Inr s' \<and> hardModeScores s' = Scores [] \<and>
               easyModeScores s' = easyModeScores s"
    using assms
    by (cases net)
       (simp_all add: clearScores_def saveScores_def setItem_def fetch_def Let_def)
  have a: "case hardModeScores s of
               Scores xs \<Rightarrow>
                 \<exists>s'. addScore s md nm sc now net = Inr s' \<and>
                      easyModeScores s' = easyModeScores s \<and>
                      hardModeScores s' = Scores (truncate10 (array_sort compareScores
                        (xs @ [\<lparr>mode = None, name = nm, score = sc, date = now\<rparr>])))
             | _ \<Rightarrow> addScore s md nm sc now net = Inl TypeError" if un: "unavailable net"
  proof (cases "hardModeScores s")
    case (Scores xs)
    with g have "getScores s md = Scores xs" by simp
    from addScore_fallback [OF un this, of nm sc now] assms Scores show ?thesis by auto
  next
    case Success
    with un assms show ?thesis
      by (cases net; cases "case net of Response st b \<Rightarrow> b")
         (auto simp: addScore_def unavailable_def fetch_def Let_def)
  next
    case (Error m)
    with un assms show ?thesis
      by (cases net; cases "case net of Response st b \<Rightarrow> b")
         (auto simp: addScore_def unavailable_def fetch_def Let_def)
  qed
  from g i c a show ?thesis by (intro conjI impI)
qed

theorem unknown_mode_is_hard_witness:
  "''medium'' \<noteq> ''easy'' \<and> unavailable NetworkError \<and>
   getScores full_board ''medium'' = Scores [\<lparr>mode = None, name = Str ''H'', score = 3, date = 9\<rparr>] \<and>
   isHighScore full_board ''medium'' 0 \<and> \<not> isHighScore full_board ''easy'' 0 \<and>
   isHighScore hard_full_board ''medium'' 6 \<and> \<not> isHighScore hard_full_board ''medium'' 5 \<and>
   isHighScore hard_full_board ''easy'' 5 \<and>
   (\<exists>s'. addScore full_board ''medium'' (Str ''M'') 4 10 NetworkError = Inr s' \<and>
        easyModeScores s' = Scores ten_scores \<and>
        hardModeScores s' = Scores [\<lparr>mode = None, name = Str ''M'', score = 4, date = 10\<rparr>,
                                    \<lparr>mode = None, name = Str ''H'', score = 3, date = 9\<rparr>])"
proof -
  have m: "''medium'' \<noteq> ''easy''" by simp
  have u: "unavailable NetworkError" by (simp add: unavailable_def)
  have h: "hardModeScores full_board = Scores [\<lparr>mode = None, name = Str ''H'', score = 3, date = 9\<rparr>]"
    and e: "easyModeScores full_board = Scores ten_scores"
    and h': "hardModeScores hard_full_board = Scores ten_scores"
    by (simp_all add: full_board_def hard_full_board_def)
  have n9: "score (ten_scores ! 9) = 5"
    by (simp add: ten_scores_def)
  have easy: "\<not> isHighScore full_board ''easy'' 0" "isHighScore hard_full_board ''easy'' 5"
    using ten_scores_eval n9
    by (simp_all add: isHighScore_def getScores_def full_board_def hard_full_board_def)
  have ne: "ten_scores \<noteq> []" using ten_scores_eval by auto
  from unknown_mode_is_hard [OF m, of full_board 0 NetworkError "Str ''M''" 10]
       unknown_mode_is_hard [OF m, of full_board 4 NetworkError "Str ''M''" 10]
       unknown_mode_is_hard [OF m, of hard_full_board 6 NetworkError "Str ''M''" 10]
       unknown_mode_is_hard [OF m, of hard_full_board 5 NetworkError "Str ''M''" 10]
       u h e h' easy ne ten_scores_eval
  show ?thesis
    by (simp add: truncate10_def compareScores_def)
qed

text \<open>
  C6. With the fetch rejected (or answered with a 500) and a cache entry for the mode
  that is not JSON, \<^verbatim>\<open>loadScores\<close> does not adopt the empty list: the \<^verbatim>\<open>JSON.parse\<close>
  of the cache is outside the \<^verbatim>\<open>try\<close> and its SyntaxError leaves the function. The
  store module's \<^verbatim>\<open>getScores\<close> on the same text returns the empty list.
\<close>

theorem loadScores_garbled_cache_throws:
  "loadScores (constructor garbled_cache) ''easy'' NetworkError = Inl SyntaxError \<and>
   loadScores (constructor garbled_cache) ''easy''
     (Response 500 (JSON_stringify (Error ''Failed to load scores''))) = Inl SyntaxError \<and>
   scoresDb_getScores garbled_store ''easy'' = Inr (Scores [])"
  by (simp add: loadScores_def constructor_def garbled_cache_def fetch_def ok_def
      scoresDb_getScores_def garbled_store_def getKVStore_def store_get_def Let_def)

section \<open>Properties of the spreadsheet-backed service\<close>

lemma top_scores_mode: "e \<in> set (top_scores m rs) \<Longrightarrow> mode e = Some m"
  by (auto simp: top_scores_def set_array_sort dest!: in_set_takeD)

lemma save_row_cases:
  assumes "read_prop payload ''mode'' = Inr md"
    and "read_prop payload ''name'' = Inr nm"
    and "read_prop payload ''score'' = Inr sc"
  shows "save_row payload now sh =
     (if \<not> truthy md \<or> typeof sc \<noteq> ''number'' then Inr None
      else if available sh
        then Inr (Some (sh\<lparr>rows := rows sh @
               [\<lparr>row_mode = md, row_name = nm, row_score = (case sc of Num n \<Rightarrow> n), row_date = now\<rparr>]\<rparr>))
        else Inl BackendError)"
  using assms by (cases sc) (simp_all add: save_row_def values_append_def)

lemma post_validation:
  assumes "httpMethod ev = ''POST''"
    and "JSON_parse (event_body ev) = Inr payload"
    and "read_prop payload ''mode'' = Inr md"
    and "read_prop payload ''name'' = Inr nm"
    and "read_prop payload ''score'' = Inr sc"
  shows "(\<not> truthy md \<or> typeof sc \<noteq> ''number'' \<longrightarrow>
            handler ev now sh = (\<lparr>statusCode = 400, body = JSON_stringify (Error ''Invalid input'')\<rparr>, sh) \<and>
            app_post payload now sh = (\<lparr>statusCode = 400, body = JSON_stringify (Error ''Invalid input'')\<rparr>, sh))
       \<and> (\<forall>n. truthy md \<and> sc = Num n \<and> available sh \<longrightarrow>
            handler ev now sh =
              (\<lparr>statusCode = 200, body = JSON_stringify Success\<rparr>,
               sh\<lparr>rows := rows sh @ [\<lparr>row_mode = md, row_name = nm, row_score = n, row_date = now\<rparr>]\<rparr>) \<and>
            app_post payload now sh = handler ev now sh)
       \<and> (\<forall>n. truthy md \<and> sc = Num n \<and> \<not> available sh \<longrightarrow>
            handler ev now sh =
              (\<lparr>statusCode = 500, body = JSON_stringify (Error ''Failed to save score'')\<rparr>, sh) \<and>
            app_post payload now sh = handler ev now sh)"
  using assms(1,2) save_row_cases [OF assms(3,4,5), of now sh]
  by (auto simp: handler_def app_post_def)

text \<open>
  C4. A POST whose payload has a mode and a numeric score and no \<^verbatim>\<open>name\<close> is not answered
  with 400: both spreadsheet routes answer 200 and append a row whose name is
  \<^verbatim>\<open>undefined\<close>, since they test only \<^verbatim>\<open>!mode || typeof score !== 'number'\<close>. The
  key-value handler, whose test names all three fields, answers the same request with 400
  and stores nothing.
\<close>

theorem post_without_name_accepted:
  "read_prop (Obj [(''mode'', Str ''easy''), (''score'', Num 5)]) ''name'' = Inr Undefined \<and>
   handler nameless_post 7 empty_sheet =
     (\<lparr>statusCode = 200, body = JSON_stringify Success\<rparr>,
      \<lparr>rows = [\<lparr>row_mode = Str ''easy'', row_name = Undefined, row_score = 5, row_date = 7\<rparr>],
       available = True\<rparr>) \<and>
   app_post (Obj [(''mode'', Str ''easy''), (''score'', Num 5)]) 7 empty_sheet =
     (\<lparr>statusCode = 200, body = JSON_stringify Success\<rparr>,
      \<lparr>rows = [\<lparr>row_mode = Str ''easy'', row_name = Undefined, row_score = 5, row_date = 7\<rparr>],
       available = True\<rparr>)"
  by (simp add: handler_def app_post_def save_row_def nameless_post_def empty_sheet_def
      values_append_def JSON_stringify_def)

text \<open>The key-value handler on the same request.\<close>

lemma kv_handler_rejects_nameless_post:
  "kv_handler nameless_post 7 empty_store =
     Some (\<lparr>statusCode = 400, body = JSON_stringify (Error ''Missing required fields'')\<rparr>,
           empty_store)"
  by (simp add: kv_handler_def nameless_post_def JSON_stringify_def)

text \<open>
  C8, as the code has it. A GET without query parameters, without a \<^verbatim>\<open>mode\<close> or with
  an empty one is answered as \<^verbatim>\<open>mode=easy\<close>. A GET with any other mode, known or not,
  is answered with the top ten of the rows stored under exactly that mode, so each entry
  of the answer carries that mode. The Express route does the same.
\<close>

theorem get_mode_default:
  "handler (get_event None) now sh = handler (get_event (Some [''mode'' \<mapsto> ''easy''])) now sh \<and>
   (q ''mode'' = None \<or> q ''mode'' = Some [] \<longrightarrow>
      handler (get_event (Some q)) now sh = handler (get_event (Some [''mode'' \<mapsto> ''easy''])) now sh \<and>
      app_get q sh = app_get [''mode'' \<mapsto> ''easy''] sh) \<and>
   (\<forall>m. q ''mode'' = Some m \<and> m \<noteq> [] \<longrightarrow>
      handler (get_event (Some q)) now sh =
        (if available sh
         then (\<lparr>statusCode = 200, body = JSON_stringify (Scores (top_scores m (rows sh)))\<rparr>, sh)
         else (\<lparr>statusCode = 500, body = JSON_stringify (Error ''Failed to load scores'')\<rparr>, sh)) \<and>
      app_get q sh = handler (get_event (Some q)) now sh \<and>
      (\<forall>e \<in> set (top_scores m (rows sh)). mode e = Some m))"
  by (auto simp: handler_def app_get_def get_event_def values_get_def top_scores_mode Let_def)

theorem get_mode_default_witness:
  "handler (get_event (Some Map.empty)) 0 one_easy_row =
     handler (get_event (Some [''mode'' \<mapsto> ''easy''])) 0 one_easy_row \<and>
   handler (get_event (Some [''mode'' \<mapsto> ''medium''])) 0 one_easy_row =
     (\<lparr>statusCode = 200, body = JSON_stringify (Scores [])\<rparr>, one_easy_row) \<and>
   top_scores ''easy'' (rows one_easy_row) =
     [\<lparr>mode = Some ''easy'', name = Str ''Ann'', score = 7, date = 1000\<rparr>]"
proof -
  have a: "available one_easy_row" by (simp add: one_easy_row_def)
  have t: "top_scores ''medium'' (rows one_easy_row) = []"
    and t': "top_scores ''easy'' (rows one_easy_row) =
      [\<lparr>mode = Some ''easy'', name = Str ''Ann'', score = 7, date = 1000\<rparr>]"
    by (simp_all add: top_scores_def one_easy_row_def)
  from get_mode_default [of 0 one_easy_row Map.empty]
       get_mode_default [of 0 one_easy_row "[''mode'' \<mapsto> ''medium'']"] a t t'
  show ?thesis by simp
qed

text \<open>
  C8 as claimed fails for an unknown mode: with one easy row in the sheet,
  \<^verbatim>\<open>mode=medium\<close> yields the empty list and \<^verbatim>\<open>mode=easy\<close> the list of that row.
\<close>

theorem unknown_mode_not_easy:
  "handler (get_event (Some [''mode'' \<mapsto> ''medium''])) 0 one_easy_row =
     (\<lparr>statusCode = 200, body = JSON_stringify (Scores [])\<rparr>, one_easy_row) \<and>
   handler (get_event (Some [''mode'' \<mapsto> ''easy''])) 0 one_easy_row =
     (\<lparr>statusCode = 200,
       body = JSON_stringify (Scores [\<lparr>mode = Some ''easy'', name = Str ''Ann'', score = 7, date = 1000\<rparr>])\<rparr>,
      one_easy_row) \<and>
   app_get [''mode'' \<mapsto> ''medium''] one_easy_row =
     (\<lparr>statusCode = 200, body = JSON_stringify (Scores [])\<rparr>, one_easy_row)"
  by (simp add: handler_def app_get_def get_event_def one_easy_row_def values_get_def top_scores_def
      Let_def)

lemma addScore_adopts_body:
  assumes "ok status"
  shows "\<exists>s'. addScore s md nm sc now (Response status (JSON_stringify b)) = Inr s' \<and>
     getScores s' md = b \<and> localStorage s' (''leaderboard_'' @ md) = Some (JSON_stringify b)"
  using assms
  by (cases "md = ''easy''")
     (simp_all add: addScore_def JSON_stringify_def fetch_def saveScores_def setItem_def getScores_def)

lemma handler_post_never_returns_list:
  assumes "httpMethod ev = ''POST''"
  shows "body (fst (handler ev now sh)) \<noteq> JSON_stringify (Scores xs)"
  using assms
  by (auto simp: handler_def JSON_stringify_def split: sum.splits option.splits)

text \<open>
  C1. The client adopts whatever body an ok response carries, and the spreadsheet
  handler answers an accepted POST with \<^verbatim>\<open>{ success: true }\<close>, never with an array. So
  after a successful \<^verbatim>\<open>addScore\<close> the in-memory value and the cache entry of the mode are
  that object, not the new top ten; \<^verbatim>\<open>isHighScore\<close> then judges by \<^verbatim>\<open>score > 0\<close>, and
  the next fallback \<^verbatim>\<open>addScore\<close> throws a TypeError.
\<close>

theorem addScore_adopts_success_object:
  "handler (post_event ''easy'' (Str ''Ann'') 7) 1000 empty_sheet =
     (\<lparr>statusCode = 200, body = JSON_stringify Success\<rparr>,
      \<lparr>rows = [\<lparr>row_mode = Str ''easy'', row_name = Str ''Ann'', row_score = 7, row_date = 1000\<rparr>],
       available = True\<rparr>) \<and>
   (\<exists>s'. addScore (constructor Map.empty) ''easy'' (Str ''Ann'') 7 1000
            (Response 200 (JSON_stringify Success)) = Inr s' \<and>
         easyModeScores s' = Success \<and>
         localStorage s' ''leaderboard_easy'' = Some (JSON_stringify Success) \<and>
         isHighScore s' ''easy'' 0 = False \<and>
         addScore s' ''easy'' (Str ''Bob'') 3 2000 NetworkError = Inl TypeError)"
  by (simp add: handler_def save_row_def post_event_def empty_sheet_def values_append_def
      JSON_stringify_def addScore_def constructor_def fetch_def ok_def saveScores_def setItem_def
      isHighScore_def getScores_def Let_def)

section \<open>Properties of the key-value store module\<close>

text \<open>
  C10, as the code has it. Whenever \<^verbatim>\<open>getKVStore\<close> hands out the store,
  \<^verbatim>\<open>getScores(mode)\<close> of the store module returns: the empty list for a key never set,
  for a store whose \<^verbatim>\<open>get\<close> throws and for a stored text that does not parse, and the
  parsed value otherwise.
\<close>

theorem scoresDb_getScores_returns:
  assumes "obtainable st"
  shows "(\<exists>v. scoresDb_getScores st md = Inr v) \<and>
   (blobs st (''scores_'' @ md) = None \<longrightarrow> scoresDb_getScores st md = Inr (Scores [])) \<and>
   (\<not> reachable st \<longrightarrow> scoresDb_getScores st md = Inr (Scores [])) \<and>
   (\<forall>s. blobs st (''scores_'' @ md) = Some (Garbled s) \<longrightarrow>
      scoresDb_getScores st md = Inr (Scores [])) \<and>
   (\<forall>v. reachable st \<and> blobs st (''scores_'' @ md) = Some (Stringified v) \<longrightarrow>
      scoresDb_getScores st md = Inr v)"
  using assms
  by (auto simp: scoresDb_getScores_def getKVStore_def store_get_def split: sum.splits option.splits)

theorem scoresDb_getScores_returns_witness:
  "obtainable garbled_store \<and>
   scoresDb_getScores garbled_store ''hard'' = Inr (Scores []) \<and>
   scoresDb_getScores (garbled_store\<lparr>reachable := False\<rparr>) ''easy'' = Inr (Scores []) \<and>
   scoresDb_getScores garbled_store ''easy'' = Inr (Scores [])"
proof -
  have o: "obtainable garbled_store" "obtainable (garbled_store\<lparr>reachable := False\<rparr>)"
    and a: "blobs garbled_store (''scores_'' @ ''hard'') = None"
    and b: "\<not> reachable (garbled_store\<lparr>reachable := False\<rparr>)"
    and c: "blobs garbled_store (''scores_'' @ ''easy'') = Some (Garbled ''{oops'')"
    by (simp_all add: garbled_store_def)
  from scoresDb_getScores_returns [OF o(1), of "''hard''"]
       scoresDb_getScores_returns [OF o(2), of "''easy''"]
       scoresDb_getScores_returns [OF o(1), of "''easy''"] o a b c
  show ?thesis by blast
qed

text \<open>
  C10 as claimed fails: \<^verbatim>\<open>getKVStore\<close> is called before the \<^verbatim>\<open>try\<close>, and when it
  throws, \<^verbatim>\<open>getScores\<close> throws. The handler's own \<^verbatim>\<open>try\<close> then answers 500.
\<close>

theorem scoresDb_getScores_throws:
  "scoresDb_getScores (empty_store\<lparr>obtainable := False\<rparr>) ''easy'' = Inl BackendError \<and>
   kv_handler (get_event (Some [''mode'' \<mapsto> ''easy''])) 0 (empty_store\<lparr>obtainable := False\<rparr>) =
     Some (\<lparr>statusCode = 500, body = JSON_stringify (Error ''Server error'')\<rparr>,
           empty_store\<lparr>obtainable := False\<rparr>)"
  by (simp add: scoresDb_getScores_def getKVStore_def empty_store_def kv_handler_def get_event_def)

section \<open>The two services compared\<close>












end
